theory Spec2Isabelle
  imports Main
begin

section \<open>Syntax trees, as far as the rule reads them\<close>

text \<open>
  The rule of \<^verbatim>\<open>unused_standalone_imports_rule.ts\<close> reads four things of a TypeScript
  node: its \<^verbatim>\<open>kind\<close>, its \<^verbatim>\<open>parent\<close>, the \<^verbatim>\<open>modifiers\<close> of a variable statement and the
  \<^verbatim>\<open>name\<close> of a property assignment. Nodes are compared by identity, so every node
  carries a handle \<open>nid\<close>.

  A node holds its parent, so a value of type \<open>node\<close> is the node together with its chain
  of ancestors; children are never read. The declared type of \<^verbatim>\<open>parent\<close> is \<^verbatim>\<open>Node\<close>, but
  the value read at the top of a tree is not a node: TypeScript leaves the \<^verbatim>\<open>parent\<close> of a
  source file \<^verbatim>\<open>undefined\<close>. The loops of the rule test that value in two different ways
  (\<^verbatim>\<open>current !== null\<close> and the truthiness of \<^verbatim>\<open>current\<close>), so \<open>link\<close> keeps \<^verbatim>\<open>null\<close> and
  \<^verbatim>\<open>undefined\<close> apart.
\<close>

type_synonym node_id = nat

datatype syntax_kind =
    SourceFile | Identifier | ArrayLiteralExpression | ObjectLiteralExpression
  | ShorthandPropertyAssignment | CallExpression | Decorator | VariableDeclarationList
  | VariableDeclaration | FunctionDeclaration | ArrowFunction | Block | ReturnStatement
  | ExportKeyword | DefaultKeyword | DeclareKeyword

record ts_identifier =
  ident_id :: node_id
  escapedText :: string

datatype node =
    ClassDeclaration (nid: node_id) (parent: link)
  | VariableStatement (nid: node_id) "syntax_kind list option" (parent: link)
  | PropertyAssignment (nid: node_id) ts_identifier (parent: link)
  | OtherNode (nid: node_id) syntax_kind (parent: link)
and link = Null | Undefined | Node node

fun isClassDeclaration :: "node \<Rightarrow> bool" where
  "isClassDeclaration (ClassDeclaration _ _) = True"
| "isClassDeclaration _ = False"

fun isVariableStatement :: "node \<Rightarrow> bool" where
  "isVariableStatement (VariableStatement _ _ _) = True"
| "isVariableStatement _ = False"

fun isPropertyAssignment :: "node \<Rightarrow> bool" where
  "isPropertyAssignment (PropertyAssignment _ _ _) = True"
| "isPropertyAssignment _ = False"

text \<open>A parent is a smaller tree: every walk up the parents ends.\<close>

lemma size_parent: "size (parent n) < Suc (size n)"
  by (cases n) simp_all

text \<open>
  \<^verbatim>\<open>!!current.modifiers?.some((m) => m.kind === ts.SyntaxKind.ExportKeyword)\<close>: the
  modifiers of a statement that has none are \<^verbatim>\<open>undefined\<close>, and the optional chain then
  gives \<^verbatim>\<open>false\<close>.
\<close>

fun hasExportModifier :: "node \<Rightarrow> bool" where
  "hasExportModifier (VariableStatement _ (Some ms) _) = list_ex (\<lambda>m. m = ExportKeyword) ms"
| "hasExportModifier _ = False"

text \<open>The \<^verbatim>\<open>name\<close> of a property assignment (read only after \<open>isPropertyAssignment\<close>).\<close>

fun propertyName :: "node \<Rightarrow> ts_identifier option" where
  "propertyName (PropertyAssignment _ nm _) = Some nm"
| "propertyName _ = None"

text \<open>
  \<^verbatim>\<open>node.getSourceFile()\<close> of the TypeScript API: the first node of kind \<open>SourceFile\<close> on
  the way up, or whatever value ends the chain.
\<close>

fun getSourceFile :: "link \<Rightarrow> link" where
  "getSourceFile Null = Null"
| "getSourceFile Undefined = Undefined"
| "getSourceFile (Node (OtherNode i SourceFile p)) = Node (OtherNode i SourceFile p)"
| "getSourceFile (Node (OtherNode _ _ p)) = getSourceFile p"
| "getSourceFile (Node (ClassDeclaration _ p)) = getSourceFile p"
| "getSourceFile (Node (VariableStatement _ _ p)) = getSourceFile p"
| "getSourceFile (Node (PropertyAssignment _ _ p)) = getSourceFile p"

section \<open>References, metadata and the collaborators of the rule\<close>

text \<open>
  A reference to a class declaration (\<^verbatim>\<open>imports/src/references.ts\<close>, not part of the
  source file): the rule reads its \<^verbatim>\<open>node\<close>, whose \<^verbatim>\<open>name\<close> is always an identifier, and
  calls three of its methods, which are fields here.
\<close>

record class_declaration =
  decl_id :: node_id
  decl_name :: ts_identifier

record reference =
  ref_node :: class_declaration
  getIdentityInExpression :: "node \<Rightarrow> node option"
  getIdentityIn :: "link \<Rightarrow> node option"
  getOriginForDiagnostics :: "node \<Rightarrow> ts_identifier \<Rightarrow> node_id"

text \<open>\<^verbatim>\<open>TypeCheckableDirectiveMeta\<close> and \<^verbatim>\<open>PipeMeta\<close>, the fields the rule reads.\<close>

record directive_meta =
  ref :: reference
  isStandalone :: bool
  rawImports :: "node option"
  importReferences :: "reference list option"

record pipe_meta =
  pipeIsStandalone :: bool
  pipeName :: string

record template_type_checker =
  getDirectiveMetadata :: "node_id \<Rightarrow> directive_meta option"
  getPipeMetadata :: "node_id \<Rightarrow> pipe_meta option"
  getUsedDirectives :: "node_id \<Rightarrow> directive_meta list option"
  getUsedPipes :: "node_id \<Rightarrow> string list option"

record type_checking_config =
  unusedStandaloneImports :: string

record imported_symbols_tracker =
  hasNamedImport :: "node \<Rightarrow> string \<Rightarrow> string \<Rightarrow> bool"
  hasNamespaceImport :: "node \<Rightarrow> string \<Rightarrow> bool"

record rule =
  templateTypeChecker :: template_type_checker
  typeCheckingConfig :: type_checking_config
  importedSymbolsTracker :: imported_symbols_tracker

section \<open>Diagnostics\<close>

datatype error_code =
  UNUSED_STANDALONE_IMPORTS | COMPONENT_NOT_STANDALONE | COMPONENT_UNKNOWN_IMPORT

datatype diagnostic_category = CategoryWarning | CategoryError | CategorySuggestion | CategoryMessage

record related_information =
  related_node :: node_id
  related_messageText :: string

record diagnostic =
  category :: diagnostic_category
  code :: error_code
  anchor :: node_id
  messageText :: string
  relatedInformation :: "related_information list option"

text \<open>
  Modelled from the spec: \<^verbatim>\<open>makeDiagnostic\<close> and \<^verbatim>\<open>makeRelatedInformation\<close> live in
  \<^verbatim>\<open>../../../diagnostics\<close>, which is not part of the source file. Following section 3 of
  the specification, a diagnostic keeps the code, the anchor node, the message, the
  related entries and the severity it is made from, and a related entry keeps its node
  and its message.
\<close>

definition makeRelatedInformation :: "node_id \<Rightarrow> string \<Rightarrow> related_information" where
  "makeRelatedInformation n msg = \<lparr>related_node = n, related_messageText = msg\<rparr>"

definition makeDiagnostic ::
  "error_code \<Rightarrow> node_id \<Rightarrow> string \<Rightarrow> related_information list option
     \<Rightarrow> diagnostic_category \<Rightarrow> diagnostic" where
  "makeDiagnostic c n msg rel cat =
     \<lparr>category = cat, code = c, anchor = n, messageText = msg, relatedInformation = rel\<rparr>"

section \<open>Errors\<close>

text \<open>
  The only failure the rule can raise by itself: reading a property of \<^verbatim>\<open>undefined\<close>, as
  \<^verbatim>\<open>ts.isVariableStatement(undefined)\<close> does when it reads \<^verbatim>\<open>.kind\<close>.
\<close>

datatype error = TypeError

section \<open>The rule\<close>

subsection \<open>shouldCheck\<close>

definition shouldCheck :: "rule \<Rightarrow> node \<Rightarrow> bool" where
  "shouldCheck r sourceFile =
     (unusedStandaloneImports (typeCheckingConfig r) \<noteq> ''suppress'' \<and>
      (hasNamedImport (importedSymbolsTracker r) sourceFile ''Component'' ''@angular/core'' \<or>
       hasNamespaceImport (importedSymbolsTracker r) sourceFile ''@angular/core''))"

subsection \<open>isPotentialSharedReference\<close>

text \<open>
  The loop \<^verbatim>\<open>while (current !== null)\<close>. Its variable is a node, \<^verbatim>\<open>null\<close> or, after
  \<^verbatim>\<open>current = current.parent\<close> at the top of the tree, \<^verbatim>\<open>undefined\<close>; the last passes the
  loop test and reaches \<^verbatim>\<open>ts.isVariableStatement(current)\<close>.
\<close>

function isPotentialSharedReference_loop :: "link \<Rightarrow> error + bool" where
  "isPotentialSharedReference_loop Null = Inr True"
| "isPotentialSharedReference_loop Undefined = Inl TypeError"
| "isPotentialSharedReference_loop (Node current) =
     (if isVariableStatement current then Inr (hasExportModifier current)
      else isPotentialSharedReference_loop (parent current))"
  by pat_completeness auto
termination
  by (relation "measure size") (simp_all add: size_parent)

definition isPotentialSharedReference :: "reference \<Rightarrow> node \<Rightarrow> error + bool" where
  "isPotentialSharedReference reference rawImportsE =
     (if getIdentityInExpression reference rawImportsE \<noteq> None then Inr False
      else isPotentialSharedReference_loop
             (case getIdentityIn reference (getSourceFile (Node rawImportsE)) of
                None \<Rightarrow> Null
              | Some identity \<Rightarrow> Node identity))"

subsection \<open>getDiagnosticNode\<close>

text \<open>The loop \<^verbatim>\<open>while (current)\<close>: \<^verbatim>\<open>null\<close> and \<^verbatim>\<open>undefined\<close> both end it.\<close>

function getDiagnosticNode_loop :: "node \<Rightarrow> link \<Rightarrow> node_id" where
  "getDiagnosticNode_loop importsExpression Null = nid importsExpression"
| "getDiagnosticNode_loop importsExpression Undefined = nid importsExpression"
| "getDiagnosticNode_loop importsExpression (Node current) =
     (case propertyName current of
        Some nm \<Rightarrow> ident_id nm
      | None \<Rightarrow> getDiagnosticNode_loop importsExpression (parent current))"
  by pat_completeness auto
termination
  by (relation "measure (\<lambda>(e, l). size l)") (simp_all add: size_parent)

definition getDiagnosticNode :: "node \<Rightarrow> node_id" where
  "getDiagnosticNode importsExpression =
     getDiagnosticNode_loop importsExpression (parent importsExpression)"

subsection \<open>getUnusedSymbols\<close>

text \<open>
  \<^verbatim>\<open>unused ??= []; unused.push(current)\<close>: the accumulator is \<^verbatim>\<open>null\<close> until the first
  reference is flagged.
\<close>

definition push :: "reference list option \<Rightarrow> reference \<Rightarrow> reference list option" where
  "push unused current = (case unused of None \<Rightarrow> Some [current] | Some us \<Rightarrow> Some (us @ [current]))"

fun getUnusedSymbols_loop ::
  "template_type_checker \<Rightarrow> node \<Rightarrow> node_id set \<Rightarrow> string set \<Rightarrow> reference list
     \<Rightarrow> reference list option \<Rightarrow> error + reference list option" where
  "getUnusedSymbols_loop ttc rawImportsE usedDirectives usedPipes [] unused = Inr unused"
| "getUnusedSymbols_loop ttc rawImportsE usedDirectives usedPipes (current # rest) unused =
     (let currentNode = decl_id (ref_node current) in
      case getDirectiveMetadata ttc currentNode of
        Some dirMeta \<Rightarrow>
          if isStandalone dirMeta \<and> currentNode \<notin> usedDirectives then
            (case isPotentialSharedReference current rawImportsE of
               Inl e \<Rightarrow> Inl e
             | Inr shared \<Rightarrow>
                 getUnusedSymbols_loop ttc rawImportsE usedDirectives usedPipes rest
                   (if shared then unused else push unused current))
          else getUnusedSymbols_loop ttc rawImportsE usedDirectives usedPipes rest unused
      | None \<Rightarrow>
          (case getPipeMetadata ttc currentNode of
             Some pipeMeta \<Rightarrow>
               if pipeIsStandalone pipeMeta \<and> pipeName pipeMeta \<notin> usedPipes then
                 (case isPotentialSharedReference current rawImportsE of
                    Inl e \<Rightarrow> Inl e
                  | Inr shared \<Rightarrow>
                      getUnusedSymbols_loop ttc rawImportsE usedDirectives usedPipes rest
                        (if shared then unused else push unused current))
               else getUnusedSymbols_loop ttc rawImportsE usedDirectives usedPipes rest unused
           | None \<Rightarrow> getUnusedSymbols_loop ttc rawImportsE usedDirectives usedPipes rest unused))"

definition getUnusedSymbols ::
  "template_type_checker \<Rightarrow> directive_meta \<Rightarrow> node_id set \<Rightarrow> string set
     \<Rightarrow> error + reference list option" where
  "getUnusedSymbols ttc metadata usedDirectives usedPipes =
     (case importReferences metadata of
        None \<Rightarrow> Inr None
      | Some imps \<Rightarrow>
          (case rawImports metadata of
             None \<Rightarrow> Inr None
           | Some rawImportsE \<Rightarrow>
               getUnusedSymbols_loop ttc rawImportsE usedDirectives usedPipes imps None))"

subsection \<open>checkNode\<close>

definition diagnosticCategory :: "rule \<Rightarrow> diagnostic_category" where
  "diagnosticCategory r =
     (if unusedStandaloneImports (typeCheckingConfig r) = ''error''
      then CategoryError else CategoryWarning)"

definition reportUnused :: "rule \<Rightarrow> node \<Rightarrow> reference list \<Rightarrow> reference list \<Rightarrow> diagnostic" where
  "reportUnused r rawImportsE imps unused =
     (if length unused = length imps then
        makeDiagnostic UNUSED_STANDALONE_IMPORTS (getDiagnosticNode rawImportsE)
          ''All imports are unused'' None (diagnosticCategory r)
      else
        makeDiagnostic UNUSED_STANDALONE_IMPORTS (getDiagnosticNode rawImportsE)
          ''Imports array contains unused imports''
          (Some (map (\<lambda>ref. makeRelatedInformation
                        (getOriginForDiagnostics ref rawImportsE (decl_name (ref_node ref))) [])
                   unused))
          (diagnosticCategory r))"

definition usedDirectiveSet :: "directive_meta list \<Rightarrow> node_id set" where
  "usedDirectiveSet usedDirectives = set (map (\<lambda>dir. decl_id (ref_node (ref dir))) usedDirectives)"

definition checkNode :: "rule \<Rightarrow> node \<Rightarrow> error + diagnostic option" where
  "checkNode r node =
     (if \<not> isClassDeclaration node then Inr None
      else
       (case getDirectiveMetadata (templateTypeChecker r) (nid node) of
          None \<Rightarrow> Inr None
        | Some metadata \<Rightarrow>
           (if \<not> isStandalone metadata then Inr None
            else
             (case rawImports metadata of
                None \<Rightarrow> Inr None
              | Some rawImportsE \<Rightarrow>
                 (case importReferences metadata of
                    None \<Rightarrow> Inr None
                  | Some imps \<Rightarrow>
                     (if length imps = 0 then Inr None
                      else
                       (case getUsedDirectives (templateTypeChecker r) (nid node) of
                          None \<Rightarrow> Inr None
                        | Some usedDirectives \<Rightarrow>
                           (case getUsedPipes (templateTypeChecker r) (nid node) of
                              None \<Rightarrow> Inr None
                            | Some usedPipes \<Rightarrow>
                               (case getUnusedSymbols (templateTypeChecker r) metadata
                                       (usedDirectiveSet usedDirectives) (set usedPipes) of
                                  Inl e \<Rightarrow> Inl e
                                | Inr unusedOrNull \<Rightarrow>
                                   (case unusedOrNull of
                                      None \<Rightarrow> Inr None
                                    | Some unused \<Rightarrow>
                                        Inr (Some (reportUnused r rawImportsE imps
                                                     unused))))))))))))"

section \<open>Vocabulary of the specification\<close>

text \<open>
  The enclosing nodes of a position, innermost first, and the value that ends the chain
  of parents (\<open>Null\<close> or \<open>Undefined\<close>).
\<close>

function enclosing :: "link \<Rightarrow> node list" where
  "enclosing Null = []"
| "enclosing Undefined = []"
| "enclosing (Node n) = n # enclosing (parent n)"
  by pat_completeness auto
termination
  by (relation "measure size") (simp_all add: size_parent)

function chainEnd :: "link \<Rightarrow> link" where
  "chainEnd Null = Null"
| "chainEnd Undefined = Undefined"
| "chainEnd (Node n) = chainEnd (parent n)"
  by pat_completeness auto
termination
  by (relation "measure size") (simp_all add: size_parent)

text \<open>
  Section 4.2 of the specification: a declared reference is a candidate when it resolves
  to standalone directive metadata whose declaration is not among the used directives,
  or to no directive metadata and to standalone pipe metadata whose name is not among
  the used pipes. It is flagged when, moreover, the shared-reference heuristic returns
  false.
\<close>

definition unusedCandidate ::
  "template_type_checker \<Rightarrow> node_id set \<Rightarrow> string set \<Rightarrow> reference \<Rightarrow> bool" where
  "unusedCandidate ttc usedDirectives usedPipes r =
     (case getDirectiveMetadata ttc (decl_id (ref_node r)) of
        Some dirMeta \<Rightarrow> isStandalone dirMeta \<and> decl_id (ref_node r) \<notin> usedDirectives
      | None \<Rightarrow>
         (case getPipeMetadata ttc (decl_id (ref_node r)) of
            Some pipeMeta \<Rightarrow> pipeIsStandalone pipeMeta \<and> pipeName pipeMeta \<notin> usedPipes
          | None \<Rightarrow> False))"

definition flagged ::
  "template_type_checker \<Rightarrow> node \<Rightarrow> node_id set \<Rightarrow> string set \<Rightarrow> reference \<Rightarrow> bool" where
  "flagged ttc rawImportsE usedDirectives usedPipes r =
     (unusedCandidate ttc usedDirectives usedPipes r \<and>
      isPotentialSharedReference r rawImportsE = Inr False)"

text \<open>
  Section 4.5 of the specification, word for word: the walk stops only at a property
  assignment whose key is \<^verbatim>\<open>imports\<close>.
\<close>

function specAnchor_loop :: "node \<Rightarrow> link \<Rightarrow> node_id" where
  "specAnchor_loop importsExpression Null = nid importsExpression"
| "specAnchor_loop importsExpression Undefined = nid importsExpression"
| "specAnchor_loop importsExpression (Node current) =
     (case propertyName current of
        Some nm \<Rightarrow>
          (if escapedText nm = ''imports'' then ident_id nm
           else specAnchor_loop importsExpression (parent current))
      | None \<Rightarrow> specAnchor_loop importsExpression (parent current))"
  by pat_completeness auto
termination
  by (relation "measure (\<lambda>(e, l). size l)") (simp_all add: size_parent)

definition specAnchor :: "node \<Rightarrow> node_id" where
  "specAnchor importsExpression = specAnchor_loop importsExpression (parent importsExpression)"

section \<open>A component file, for the concrete cases\<close>

text \<open>
  \<^verbatim>\<open>const LOCAL = [B]; export const SHARED = [C]; function listed() { return [F]; }\<close>
  next to a component declared with \<^verbatim>\<open>imports: [A, LOCAL, SHARED, D, P]\<close>, whose template
  uses the directive \<^verbatim>\<open>D\<close> only. \<^verbatim>\<open>P\<close> is a pipe. The source file is the top of the tree:
  its parent is \<^verbatim>\<open>undefined\<close>.
\<close>

definition ex_sourceFile :: node where
  "ex_sourceFile = OtherNode 0 SourceFile Undefined"

definition ex_class :: node where
  "ex_class = ClassDeclaration 1 (Node ex_sourceFile)"

definition ex_property :: node where
  "ex_property =
     PropertyAssignment 5 \<lparr>ident_id = 6, escapedText = ''imports''\<rparr>
       (Node (OtherNode 4 ObjectLiteralExpression
         (Node (OtherNode 3 CallExpression
           (Node (OtherNode 2 Decorator (Node ex_class)))))))"

definition ex_rawImports :: node where
  "ex_rawImports = OtherNode 7 ArrayLiteralExpression (Node ex_property)"

text \<open>An identifier written as an element of the \<^verbatim>\<open>imports\<close> array.\<close>

definition ex_element :: "node_id \<Rightarrow> node" where
  "ex_element i = OtherNode i Identifier (Node ex_rawImports)"

text \<open>An identifier written in the array that initialises a variable of the file.\<close>

definition ex_inVariable :: "node_id \<Rightarrow> syntax_kind list option \<Rightarrow> node" where
  "ex_inVariable i modifiers =
     OtherNode (i + 4) Identifier
       (Node (OtherNode (i + 3) ArrayLiteralExpression
         (Node (OtherNode (i + 2) VariableDeclaration
           (Node (OtherNode (i + 1) VariableDeclarationList
             (Node (VariableStatement i modifiers (Node ex_sourceFile)))))))))"

text \<open>
  A reference spelled in the array itself (\<open>Some\<close> element) or reached through another
  declaration of the file (\<open>None\<close>, with its identity in the file, if any).
\<close>

definition ex_reference :: "node_id \<Rightarrow> string \<Rightarrow> node option \<Rightarrow> node option \<Rightarrow> reference" where
  "ex_reference i nm literal identity =
     \<lparr>ref_node = \<lparr>decl_id = i, decl_name = \<lparr>ident_id = i + 1, escapedText = nm\<rparr>\<rparr>,
      getIdentityInExpression = (\<lambda>e. if nid e = 7 then literal else None),
      getIdentityIn = (\<lambda>sf. case literal of Some l \<Rightarrow> Some l | None \<Rightarrow> identity),
      getOriginForDiagnostics =
        (\<lambda>e fallback. case (if nid e = 7 then literal else None) of
                          Some l \<Rightarrow> nid l
                        | None \<Rightarrow> ident_id fallback)\<rparr>"

definition ex_refA :: reference where
  "ex_refA = ex_reference 100 ''A'' (Some (ex_element 8)) None"

definition ex_refB :: reference where
  "ex_refB = ex_reference 110 ''B'' None (Some (ex_inVariable 10 None))"

definition ex_refC :: reference where
  "ex_refC = ex_reference 120 ''C'' None (Some (ex_inVariable 20 (Some [ExportKeyword])))"

definition ex_refD :: reference where
  "ex_refD = ex_reference 130 ''D'' (Some (ex_element 9)) None"

definition ex_refP :: reference where
  "ex_refP = ex_reference 140 ''P'' (Some (ex_element 15)) None"

definition ex_refF :: reference where
  "ex_refF =
     ex_reference 150 ''F'' None
       (Some (OtherNode 34 Identifier
         (Node (OtherNode 33 ArrayLiteralExpression
           (Node (OtherNode 32 ReturnStatement
             (Node (OtherNode 31 Block
               (Node (OtherNode 30 FunctionDeclaration (Node ex_sourceFile)))))))))))"

text \<open>
  \<^verbatim>\<open>export const outer = () => { const inner = [N]; ... }\<close>: a local variable inside the
  initialiser of an exported one.
\<close>

definition ex_nested :: node where
  "ex_nested =
     OtherNode 64 Identifier
       (Node (OtherNode 63 ArrayLiteralExpression
         (Node (VariableStatement 60 None
           (Node (OtherNode 55 Block
             (Node (VariableStatement 50 (Some [ExportKeyword]) (Node ex_sourceFile)))))))))"

definition ex_refN :: reference where
  "ex_refN = ex_reference 160 ''N'' None (Some ex_nested)"

definition ex_directive :: "reference \<Rightarrow> directive_meta" where
  "ex_directive r = \<lparr>ref = r, isStandalone = True, rawImports = None, importReferences = None\<rparr>"

definition ex_metadata :: "reference list \<Rightarrow> directive_meta" where
  "ex_metadata imps =
     \<lparr>ref = ex_reference 1 ''Cmp'' None None, isStandalone = True,
      rawImports = Some ex_rawImports, importReferences = Some imps\<rparr>"

definition ex_checker :: "reference list \<Rightarrow> template_type_checker" where
  "ex_checker imps =
     \<lparr>getDirectiveMetadata =
        (\<lambda>i. if i = 1 then Some (ex_metadata imps)
             else if i = 100 then Some (ex_directive ex_refA)
             else if i = 110 then Some (ex_directive ex_refB)
             else if i = 120 then Some (ex_directive ex_refC)
             else if i = 130 then Some (ex_directive ex_refD)
             else if i = 150 then Some (ex_directive ex_refF)
             else None),
      getPipeMetadata =
        (\<lambda>i. if i = 140 then Some \<lparr>pipeIsStandalone = True, pipeName = ''p''\<rparr> else None),
      getUsedDirectives = (\<lambda>i. if i = 1 then Some [ex_directive ex_refD] else None),
      getUsedPipes = (\<lambda>i. if i = 1 then Some [] else None)\<rparr>"

definition ex_tracker :: imported_symbols_tracker where
  "ex_tracker =
     \<lparr>hasNamedImport = (\<lambda>sf nm m. nid sf = 0 \<and> nm = ''Component'' \<and> m = ''@angular/core''),
      hasNamespaceImport = (\<lambda>sf m. False)\<rparr>"

definition ex_rule :: "string \<Rightarrow> reference list \<Rightarrow> rule" where
  "ex_rule config imps =
     \<lparr>templateTypeChecker = ex_checker imps,
      typeCheckingConfig = \<lparr>unusedStandaloneImports = config\<rparr>,
      importedSymbolsTracker = ex_tracker\<rparr>"

definition ex_imports :: "reference list" where
  "ex_imports = [ex_refA, ex_refB, ex_refC, ex_refD, ex_refP]"

text \<open>
  A component declared inside the function of a property \<^verbatim>\<open>useFactory\<close>, with the
  shorthand \<^verbatim>\<open>{imports}\<close>: the raw imports expression is the shorthand's name, and the only
  property assignment above it has the key \<^verbatim>\<open>useFactory\<close>.
\<close>

definition ex_shorthandImports :: node where
  "ex_shorthandImports =
     OtherNode 47 Identifier
       (Node (OtherNode 46 ShorthandPropertyAssignment
         (Node (OtherNode 45 ObjectLiteralExpression
           (Node (OtherNode 44 CallExpression
             (Node (OtherNode 43 Decorator
               (Node (ClassDeclaration 42
                 (Node (OtherNode 38 Block
                   (Node (OtherNode 37 ArrowFunction
                     (Node (PropertyAssignment 40
                              \<lparr>ident_id = 41, escapedText = ''useFactory''\<rparr>
                       (Node (OtherNode 39 ObjectLiteralExpression
                         (Node (OtherNode 0 SourceFile Undefined))))))))))))))))))))"

section \<open>Properties of the loops\<close>

lemma error_cases: "(x :: error + 'a) \<noteq> Inl TypeError \<longleftrightarrow> (\<exists>b. x = Inr b)"
proof (cases x)
  case (Inl e)
  then show ?thesis by (cases e) simp
next
  case (Inr b)
  then show ?thesis by simp
qed

lemma push_eq: "push acc r = Some ((case acc of None \<Rightarrow> [] | Some us \<Rightarrow> us) @ [r])"
  by (simp add: push_def split: option.splits)

text \<open>One turn of the loop of \<open>getUnusedSymbols\<close>, by what the reference resolves to.\<close>

lemma getUnusedSymbols_loop_skip:
  "\<not> unusedCandidate ttc uD uP r \<Longrightarrow>
   getUnusedSymbols_loop ttc raw uD uP (r # rs) acc = getUnusedSymbols_loop ttc raw uD uP rs acc"
  by (auto simp: unusedCandidate_def Let_def split: option.splits)

lemma getUnusedSymbols_loop_candidate:
  "unusedCandidate ttc uD uP r \<Longrightarrow>
   getUnusedSymbols_loop ttc raw uD uP (r # rs) acc =
     (case isPotentialSharedReference r raw of
        Inl e \<Rightarrow> Inl e
      | Inr shared \<Rightarrow>
          getUnusedSymbols_loop ttc raw uD uP rs (if shared then acc else push acc r))"
  by (auto simp: unusedCandidate_def Let_def split: option.splits)

lemma getUnusedSymbols_loop_Inr:
  "getUnusedSymbols_loop ttc raw uD uP imps acc = Inr res \<Longrightarrow>
   res = (case filter (flagged ttc raw uD uP) imps of
            [] \<Rightarrow> acc
          | f # fs \<Rightarrow> Some ((case acc of None \<Rightarrow> [] | Some us \<Rightarrow> us) @ f # fs))"
proof (induction imps arbitrary: acc)
  case Nil
  then show ?case by simp
next
  case (Cons r rs)
  show ?case
  proof (cases "unusedCandidate ttc uD uP r")
    case False
    with Cons show ?thesis
      by (simp add: getUnusedSymbols_loop_skip flagged_def del: getUnusedSymbols_loop.simps)
  next
    case True
    note step = getUnusedSymbols_loop_candidate [OF True, of raw rs acc]
    show ?thesis
    proof (cases "isPotentialSharedReference r raw")
      case (Inl e)
      with step Cons.prems show ?thesis by simp
    next
      case (Inr shared)
      show ?thesis
      proof (cases shared)
        case True
        with Inr step Cons.prems
        have "getUnusedSymbols_loop ttc raw uD uP rs acc = Inr res" by simp
        from Cons.IH [OF this] Inr True show ?thesis by (simp add: flagged_def)
      next
        case False
        with Inr step Cons.prems
        have "getUnusedSymbols_loop ttc raw uD uP rs (push acc r) = Inr res" by simp
        from Cons.IH [OF this] Inr False \<open>unusedCandidate ttc uD uP r\<close> show ?thesis
          by (simp add: flagged_def push_eq split: list.splits)
      qed
    qed
  qed
qed

lemma getUnusedSymbols_loop_returns:
  "\<forall>r\<in>set imps. unusedCandidate ttc uD uP r \<longrightarrow>
      isPotentialSharedReference r raw \<noteq> Inl TypeError \<Longrightarrow>
   \<exists>res. getUnusedSymbols_loop ttc raw uD uP imps acc = Inr res"
proof (induction imps arbitrary: acc)
  case Nil
  then show ?case by simp
next
  case (Cons r rs)
  show ?case
  proof (cases "unusedCandidate ttc uD uP r")
    case False
    with Cons show ?thesis
      by (simp add: getUnusedSymbols_loop_skip del: getUnusedSymbols_loop.simps)
  next
    case True
    note step = getUnusedSymbols_loop_candidate [OF True, of raw rs acc]
    from True Cons.prems obtain b where "isPotentialSharedReference r raw = Inr b"
      by (auto simp: error_cases)
    with step Cons show ?thesis by simp
  qed
qed

lemma getUnusedSymbols_Some:
  assumes "getUnusedSymbols ttc md uD uP = Inr (Some unused)"
  shows "\<exists>raw imps. rawImports md = Some raw \<and> importReferences md = Some imps \<and>
           unused = filter (flagged ttc raw uD uP) imps \<and> unused \<noteq> []"
proof -
  from assms obtain raw imps where md: "rawImports md = Some raw" "importReferences md = Some imps"
    and loop: "getUnusedSymbols_loop ttc raw uD uP imps None = Inr (Some unused)"
    by (auto simp: getUnusedSymbols_def split: option.splits)
  from getUnusedSymbols_loop_Inr [OF loop]
  have "unused = filter (flagged ttc raw uD uP) imps \<and> unused \<noteq> []"
    by (auto split: list.splits)
  with md show ?thesis by blast
qed

text \<open>The walk of \<open>isPotentialSharedReference\<close>, by what encloses its starting point.\<close>

lemma isPotentialSharedReference_loop_enclosing:
  "isPotentialSharedReference_loop l =
     (case List.find isVariableStatement (enclosing l) of
        Some v \<Rightarrow> Inr (hasExportModifier v)
      | None \<Rightarrow> (if chainEnd l = Undefined then Inl TypeError else Inr True))"
  by (induction l rule: isPotentialSharedReference_loop.induct) simp_all

lemma chainEnd_cases: "chainEnd l = Null \<or> chainEnd l = Undefined"
  by (induction l rule: chainEnd.induct) simp_all

lemma getDiagnosticNode_loop_enclosing:
  "getDiagnosticNode_loop e l =
     (case List.map_filter propertyName (enclosing l) of
        [] \<Rightarrow> nid e
      | nm # _ \<Rightarrow> ident_id nm)"
  by (induction e l rule: getDiagnosticNode_loop.induct)
     (simp_all split: option.splits)

text \<open>What \<open>checkNode\<close> went through when it returns a diagnostic.\<close>

lemma checkNode_Some:
  assumes "checkNode r node = Inr (Some d)"
  shows "\<exists>md raw imps ud up unused.
           isClassDeclaration node \<and>
           getDirectiveMetadata (templateTypeChecker r) (nid node) = Some md \<and>
           isStandalone md \<and> rawImports md = Some raw \<and>
           importReferences md = Some imps \<and> imps \<noteq> [] \<and>
           getUsedDirectives (templateTypeChecker r) (nid node) = Some ud \<and>
           getUsedPipes (templateTypeChecker r) (nid node) = Some up \<and>
           getUnusedSymbols (templateTypeChecker r) md (usedDirectiveSet ud) (set up)
             = Inr (Some unused) \<and>
           d = reportUnused r raw imps unused"
  using assms unfolding checkNode_def
  by (auto split: if_splits option.splits sum.splits)

lemma checkNode_reports:
  assumes "isClassDeclaration node"
    and "getDirectiveMetadata (templateTypeChecker r) (nid node) = Some md"
    and "isStandalone md" and "rawImports md = Some raw"
    and "importReferences md = Some imps" and "imps \<noteq> []"
    and "getUsedDirectives (templateTypeChecker r) (nid node) = Some ud"
    and "getUsedPipes (templateTypeChecker r) (nid node) = Some up"
    and "getUnusedSymbols (templateTypeChecker r) md (usedDirectiveSet ud) (set up)
           = Inr (Some unused)"
  shows "checkNode r node = Inr (Some (reportUnused r raw imps unused))"
  using assms unfolding checkNode_def by simp

section \<open>The concrete cases, evaluated\<close>

lemmas ex_tree_defs =
  ex_sourceFile_def ex_class_def ex_property_def ex_rawImports_def ex_element_def
  ex_inVariable_def

lemmas ex_reference_defs =
  ex_reference_def ex_refA_def ex_refB_def ex_refC_def ex_refD_def ex_refP_def

lemma ex_shared:
  "isPotentialSharedReference ex_refA ex_rawImports = Inr False"
  "isPotentialSharedReference ex_refB ex_rawImports = Inr False"
  "isPotentialSharedReference ex_refC ex_rawImports = Inr True"
  "isPotentialSharedReference ex_refD ex_rawImports = Inr False"
  "isPotentialSharedReference ex_refP ex_rawImports = Inr False"
  by (simp_all add: isPotentialSharedReference_def ex_reference_defs ex_tree_defs)

lemma ex_candidate:
  "unusedCandidate (ex_checker imps) {130} {} ex_refA"
  "unusedCandidate (ex_checker imps) {130} {} ex_refB"
  "unusedCandidate (ex_checker imps) {130} {} ex_refC"
  "\<not> unusedCandidate (ex_checker imps) {130} {} ex_refD"
  "unusedCandidate (ex_checker imps) {130} {} ex_refP"
  by (simp_all add: unusedCandidate_def ex_checker_def ex_directive_def ex_reference_defs)

lemma ex_flagged:
  "filter (flagged (ex_checker imps) ex_rawImports {130} {}) ex_imports
     = [ex_refA, ex_refB, ex_refP]"
  "filter (flagged (ex_checker imps) ex_rawImports {130} {}) [ex_refA, ex_refB]
     = [ex_refA, ex_refB]"
  by (simp_all add: ex_imports_def flagged_def ex_candidate ex_shared)

lemma ex_unused:
  "getUnusedSymbols (ex_checker imps) (ex_metadata ex_imports) {130} {}
     = Inr (Some [ex_refA, ex_refB, ex_refP])"
  "getUnusedSymbols (ex_checker imps) (ex_metadata [ex_refA, ex_refB]) {130} {}
     = Inr (Some [ex_refA, ex_refB])"
  by (simp_all add: getUnusedSymbols_def ex_metadata_def ex_imports_def
        getUnusedSymbols_loop_skip getUnusedSymbols_loop_candidate ex_candidate ex_shared
        push_def del: getUnusedSymbols_loop.simps(2))

lemma ex_usedDirectiveSet: "usedDirectiveSet [ex_directive ex_refD] = {130}"
  by (simp add: usedDirectiveSet_def ex_directive_def ex_reference_defs)

lemma ex_fields:
  "isClassDeclaration ex_class"
  "templateTypeChecker (ex_rule config imps) = ex_checker imps"
  "unusedStandaloneImports (typeCheckingConfig (ex_rule config imps)) = config"
  "getDirectiveMetadata (ex_checker imps) (nid ex_class) = Some (ex_metadata imps)"
  "getUsedDirectives (ex_checker imps) (nid ex_class) = Some [ex_directive ex_refD]"
  "getUsedPipes (ex_checker imps) (nid ex_class) = Some []"
  "isStandalone (ex_metadata imps)"
  "rawImports (ex_metadata imps) = Some ex_rawImports"
  "importReferences (ex_metadata imps) = Some imps"
  by (simp_all add: ex_rule_def ex_class_def ex_checker_def ex_metadata_def)

lemma ex_checkNode:
  "checkNode (ex_rule config ex_imports) ex_class
     = Inr (Some (reportUnused (ex_rule config ex_imports) ex_rawImports ex_imports
                    [ex_refA, ex_refB, ex_refP]))"
  "checkNode (ex_rule config [ex_refA, ex_refB]) ex_class
     = Inr (Some (reportUnused (ex_rule config [ex_refA, ex_refB]) ex_rawImports
                    [ex_refA, ex_refB] [ex_refA, ex_refB]))"
  by (simp_all add: checkNode_def ex_fields ex_usedDirectiveSet ex_unused)
     (simp add: ex_imports_def)

section \<open>The claims\<close>

subsection \<open>C1: what getUnusedSymbols flags\<close>

text \<open>
  What the loop of \<open>getUnusedSymbols\<close> computes on the runs in which the shared-reference
  heuristic returns a value for every candidate: the flagged references, in the order of
  the declared list, \<open>None\<close> when there is none and never an empty list.
\<close>

lemma getUnusedSymbols_flags:
  assumes "importReferences md = Some imps" and "rawImports md = Some raw"
    and "\<forall>r\<in>set imps. unusedCandidate ttc uD uP r \<longrightarrow>
           isPotentialSharedReference r raw \<noteq> Inl TypeError"
  shows "getUnusedSymbols ttc md uD uP =
           Inr (if filter (flagged ttc raw uD uP) imps = [] then None
                else Some (filter (flagged ttc raw uD uP) imps))"
proof -
  from getUnusedSymbols_loop_returns [OF assms(3)]
  obtain res where res: "getUnusedSymbols_loop ttc raw uD uP imps None = Inr res"
    by blast
  from getUnusedSymbols_loop_Inr [OF res]
  have "res = (if filter (flagged ttc raw uD uP) imps = [] then None
               else Some (filter (flagged ttc raw uD uP) imps))"
    by (simp split: list.splits)
  with res assms(1,2) show ?thesis
    by (simp add: getUnusedSymbols_def)
qed

lemma getUnusedSymbols_flags_example:
  "getUnusedSymbols (ex_checker ex_imports) (ex_metadata ex_imports) {130} {}
     = Inr (Some [ex_refA, ex_refB, ex_refP])"
proof -
  have "\<forall>r\<in>set ex_imports. unusedCandidate (ex_checker ex_imports) {130} {} r \<longrightarrow>
          isPotentialSharedReference r ex_rawImports \<noteq> Inl TypeError"
    by (simp add: ex_imports_def ex_shared)
  from getUnusedSymbols_flags [OF ex_fields(9) ex_fields(8) this]
  show ?thesis by (simp add: ex_flagged)
qed

text \<open>
  C1 says that, for every standalone component passing the preconditions, a declared
  reference is flagged exactly when it resolves to standalone directive (or, failing
  that, pipe) metadata, is not used and the heuristic returns false, in declaration
  order, with \<open>None\<close> exactly when nothing is flagged. At \<^verbatim>\<open>imports: [A, listed()]\<close>, where
  \<^verbatim>\<open>function listed() { return [F]; }\<close>, the component passes the preconditions and \<^verbatim>\<open>A\<close>
  meets every condition of the claim (standalone directive, not used, heuristic false),
  so the claim's result is the sequence of \<^verbatim>\<open>A\<close> alone. The code flags nothing: the
  heuristic raises on \<^verbatim>\<open>F\<close>, and \<open>getUnusedSymbols\<close> raises with it.
\<close>

theorem getUnusedSymbols_raises:
  "importReferences (ex_metadata [ex_refA, ex_refF]) = Some [ex_refA, ex_refF] \<and>
   rawImports (ex_metadata [ex_refA, ex_refF]) = Some ex_rawImports \<and>
   isStandalone (ex_metadata [ex_refA, ex_refF]) \<and>
   flagged (ex_checker [ex_refA, ex_refF]) ex_rawImports {130} {} ex_refA \<and>
   getUnusedSymbols (ex_checker [ex_refA, ex_refF]) (ex_metadata [ex_refA, ex_refF]) {130} {}
     = Inl TypeError \<and>
   getUnusedSymbols (ex_checker [ex_refA, ex_refF]) (ex_metadata [ex_refA, ex_refF]) {130} {}
     \<noteq> Inr (Some [ex_refA])"
proof -
  have shared: "isPotentialSharedReference ex_refF ex_rawImports = Inl TypeError"
    by (simp add: isPotentialSharedReference_def ex_refF_def ex_reference_def ex_tree_defs)
  have F: "unusedCandidate (ex_checker [ex_refA, ex_refF]) {130} {} ex_refF"
    by (simp add: unusedCandidate_def ex_checker_def ex_directive_def ex_refF_def
          ex_reference_def)
  have A: "flagged (ex_checker [ex_refA, ex_refF]) ex_rawImports {130} {} ex_refA"
    by (simp add: flagged_def ex_candidate ex_shared)
  have raises:
    "getUnusedSymbols (ex_checker [ex_refA, ex_refF]) (ex_metadata [ex_refA, ex_refF]) {130} {}
       = Inl TypeError"
    by (simp add: getUnusedSymbols_def ex_metadata_def getUnusedSymbols_loop_candidate
          ex_candidate F ex_shared shared del: getUnusedSymbols_loop.simps(2))
  from A raises show ?thesis
    by (simp add: ex_fields)
qed

subsection \<open>C2: the node a diagnostic is reported on\<close>

text \<open>
  What \<open>getDiagnosticNode\<close> computes: the walk up from the raw imports expression stops at
  the first property assignment it meets and returns the node of its key, without
  reading the key; with no property assignment above, it returns the expression itself.
\<close>

lemma getDiagnosticNode_first_property_assignment:
  "getDiagnosticNode e =
     (case List.map_filter propertyName (enclosing (parent e)) of
        [] \<Rightarrow> nid e
      | nm # _ \<Rightarrow> ident_id nm)"
  by (simp add: getDiagnosticNode_def getDiagnosticNode_loop_enclosing)

lemma getDiagnosticNode_first_property_assignment_example:
  "getDiagnosticNode ex_rawImports = 6 \<and> getDiagnosticNode ex_sourceFile = 0"
  using getDiagnosticNode_first_property_assignment [of ex_rawImports]
    getDiagnosticNode_first_property_assignment [of ex_sourceFile]
  by (simp add: ex_tree_defs)

text \<open>
  C2 says that the anchor is the key of the first enclosing property assignment whose key
  is \<^verbatim>\<open>imports\<close>, and the raw imports expression itself when there is none; the comment in
  the code says the same (highlight the \<^verbatim>\<open>imports:\<close> part of the node). For a component
  declared with the shorthand \<^verbatim>\<open>{imports}\<close> inside the function of a property
  \<^verbatim>\<open>useFactory\<close>, no property assignment with the key \<^verbatim>\<open>imports\<close> encloses the expression, so
  the claim's anchor is the expression itself (node 47). The code returns the key
  \<^verbatim>\<open>useFactory\<close> (node 41).
\<close>

theorem getDiagnosticNode_key_counterexample:
  "getDiagnosticNode ex_shorthandImports = 41 \<and> specAnchor ex_shorthandImports = 47 \<and>
   getDiagnosticNode ex_shorthandImports \<noteq> specAnchor ex_shorthandImports"
  by (simp add: getDiagnosticNode_def specAnchor_def ex_shorthandImports_def)

subsection \<open>C3: the shared-reference heuristic\<close>

text \<open>
  The heuristic in full: a reference spelled in the raw imports expression is not shared;
  one with no identity in the file is shared; otherwise the first enclosing variable
  statement decides, and with none the outcome hangs on the value that ends the chain
  of parents. With \<^verbatim>\<open>null\<close> the answer is shared; with \<^verbatim>\<open>undefined\<close>, which is what TypeScript
  leaves above a source file, the walk raises.
\<close>

lemma isPotentialSharedReference_cases:
  "isPotentialSharedReference reference raw =
     (if getIdentityInExpression reference raw \<noteq> None then Inr False
      else case getIdentityIn reference (getSourceFile (Node raw)) of
        None \<Rightarrow> Inr True
      | Some identity \<Rightarrow>
         (case List.find isVariableStatement (enclosing (Node identity)) of
            Some v \<Rightarrow> Inr (hasExportModifier v)
          | None \<Rightarrow>
              (if chainEnd (Node identity) = Undefined then Inl TypeError else Inr True)))"
  by (simp add: isPotentialSharedReference_def isPotentialSharedReference_loop_enclosing
        split: option.splits)

text \<open>
  C3 at a reference that reaches the component through \<^verbatim>\<open>function listed() { return [F]; }\<close>:
  no variable statement encloses its identity, the walk leaves the source file, and
  both the heuristic and \<open>checkNode\<close> raise, where the claim says shared (and so no
  diagnostic for \<^verbatim>\<open>F\<close>).
\<close>

theorem isPotentialSharedReference_raises:
  "isPotentialSharedReference ex_refF ex_rawImports = Inl TypeError \<and>
   checkNode (ex_rule ''warning'' [ex_refA, ex_refF]) ex_class = Inl TypeError"
proof -
  have shared: "isPotentialSharedReference ex_refF ex_rawImports = Inl TypeError"
    by (simp add: isPotentialSharedReference_def ex_refF_def ex_reference_def ex_tree_defs)
  have F: "unusedCandidate (ex_checker imps) {130} {} ex_refF" for imps
    by (simp add: unusedCandidate_def ex_checker_def ex_directive_def ex_refF_def
          ex_reference_def)
  have "getUnusedSymbols (ex_checker imps) (ex_metadata [ex_refA, ex_refF]) {130} {}
          = Inl TypeError" for imps
    by (simp add: getUnusedSymbols_def ex_metadata_def getUnusedSymbols_loop_candidate
          ex_candidate F ex_shared shared del: getUnusedSymbols_loop.simps(2))
  then have "checkNode (ex_rule ''warning'' [ex_refA, ex_refF]) ex_class = Inl TypeError"
    by (simp add: checkNode_def ex_fields ex_usedDirectiveSet)
  with shared show ?thesis by simp
qed

subsection \<open>C4: the two diagnostics\<close>

text \<open>
  C4. When the preconditions hold and \<open>getUnusedSymbols\<close> returns a sequence, that
  sequence is the flagged references in declaration order and \<open>checkNode\<close> returns one
  diagnostic: if the sequence is as long as the declared list, the message is
  \<^verbatim>\<open>All imports are unused\<close> and there are no related entries; otherwise the message is
  \<^verbatim>\<open>Imports array contains unused imports\<close> and there is one related entry per unused
  reference, in order, on \<open>getOriginForDiagnostics\<close> of the raw imports expression and
  the reference's own name, each with an empty message.
\<close>

theorem checkNode_messages:
  assumes "isClassDeclaration node"
    and "getDirectiveMetadata (templateTypeChecker r) (nid node) = Some md"
    and "isStandalone md" and "rawImports md = Some raw"
    and "importReferences md = Some imps" and "imps \<noteq> []"
    and "getUsedDirectives (templateTypeChecker r) (nid node) = Some ud"
    and "getUsedPipes (templateTypeChecker r) (nid node) = Some up"
    and "getUnusedSymbols (templateTypeChecker r) md (usedDirectiveSet ud) (set up)
           = Inr (Some unused)"
  shows "\<exists>d. checkNode r node = Inr (Some d) \<and>
           unused = filter (flagged (templateTypeChecker r) raw (usedDirectiveSet ud) (set up)) imps \<and>
           (if length unused = length imps
            then messageText d = ''All imports are unused'' \<and> relatedInformation d = None
            else messageText d = ''Imports array contains unused imports'' \<and>
                 relatedInformation d =
                   Some (map (\<lambda>ref. \<lparr>related_node =
                                       getOriginForDiagnostics ref raw (decl_name (ref_node ref)),
                                     related_messageText = []\<rparr>) unused))"
proof -
  from getUnusedSymbols_Some [OF assms(9)] assms(4,5)
  have "unused = filter (flagged (templateTypeChecker r) raw (usedDirectiveSet ud) (set up)) imps"
    by auto
  moreover note checkNode_reports [OF assms]
  ultimately show ?thesis
    by (simp add: reportUnused_def makeDiagnostic_def makeRelatedInformation_def)
qed

theorem checkNode_messages_witness:
  "(\<exists>d. checkNode (ex_rule ''warning'' ex_imports) ex_class = Inr (Some d) \<and>
        messageText d = ''Imports array contains unused imports'' \<and>
        relatedInformation d =
          Some [\<lparr>related_node = 8, related_messageText = []\<rparr>,
                \<lparr>related_node = 111, related_messageText = []\<rparr>,
                \<lparr>related_node = 15, related_messageText = []\<rparr>]) \<and>
   (\<exists>d. checkNode (ex_rule ''warning'' [ex_refA, ex_refB]) ex_class = Inr (Some d) \<and>
        messageText d = ''All imports are unused'' \<and> relatedInformation d = None)"
proof -
  have one: "ex_imports \<noteq> []" and two: "[ex_refA, ex_refB] \<noteq> []"
    by (simp_all add: ex_imports_def)
  note fields = ex_fields
  have "\<exists>d. checkNode (ex_rule ''warning'' ex_imports) ex_class = Inr (Some d) \<and>
        messageText d = ''Imports array contains unused imports'' \<and>
        relatedInformation d =
          Some [\<lparr>related_node = 8, related_messageText = []\<rparr>,
                \<lparr>related_node = 111, related_messageText = []\<rparr>,
                \<lparr>related_node = 15, related_messageText = []\<rparr>]"
    using checkNode_messages [of ex_class "ex_rule ''warning'' ex_imports"
        "ex_metadata ex_imports" ex_rawImports ex_imports "[ex_directive ex_refD]" "[]"
        "[ex_refA, ex_refB, ex_refP]"] one
    by (simp add: fields ex_usedDirectiveSet ex_unused ex_flagged)
       (simp add: ex_imports_def ex_reference_defs ex_tree_defs)
  moreover
  have "\<exists>d. checkNode (ex_rule ''warning'' [ex_refA, ex_refB]) ex_class = Inr (Some d) \<and>
        messageText d = ''All imports are unused'' \<and> relatedInformation d = None"
    using checkNode_messages [of ex_class "ex_rule ''warning'' [ex_refA, ex_refB]"
        "ex_metadata [ex_refA, ex_refB]" ex_rawImports "[ex_refA, ex_refB]"
        "[ex_directive ex_refD]" "[]" "[ex_refA, ex_refB]"]
    by (simp add: fields ex_usedDirectiveSet ex_unused flagged_def ex_candidate ex_shared)
  ultimately show ?thesis by blast
qed

subsection \<open>C5: unmet preconditions\<close>

text \<open>
  C5. \<open>checkNode\<close> returns no diagnostic, and raises nothing, whenever a precondition is
  unmet: the node is not a class declaration, it has no metadata, the metadata is not
  standalone, the raw imports expression or the list of import references is absent, the
  list is empty, or the used directives or the used pipes cannot be determined.
\<close>

theorem checkNode_preconditions:
  assumes "\<not> isClassDeclaration node \<or>
           getDirectiveMetadata (templateTypeChecker r) (nid node) = None \<or>
           (\<exists>md. getDirectiveMetadata (templateTypeChecker r) (nid node) = Some md \<and>
                 (\<not> isStandalone md \<or> rawImports md = None \<or>
                  importReferences md = None \<or> importReferences md = Some [])) \<or>
           getUsedDirectives (templateTypeChecker r) (nid node) = None \<or>
           getUsedPipes (templateTypeChecker r) (nid node) = None"
  shows "checkNode r node = Inr None"
  using assms unfolding checkNode_def
  by (auto split: option.splits)

theorem checkNode_preconditions_witness:
  "checkNode (ex_rule ''warning'' ex_imports) ex_sourceFile = Inr None \<and>
   checkNode (ex_rule ''warning'' ex_imports) (ClassDeclaration 99 (Node ex_sourceFile))
     = Inr None \<and>
   checkNode (ex_rule ''warning'' []) ex_class = Inr None \<and>
   checkNode ((ex_rule ''warning'' ex_imports)
       \<lparr>templateTypeChecker := (ex_checker ex_imports)\<lparr>getUsedPipes := \<lambda>i. None\<rparr>\<rparr>) ex_class
     = Inr None"
proof -
  have "checkNode (ex_rule ''warning'' ex_imports) ex_sourceFile = Inr None"
    using checkNode_preconditions [of ex_sourceFile "ex_rule ''warning'' ex_imports"]
    by (simp add: ex_sourceFile_def)
  moreover
  have "checkNode (ex_rule ''warning'' ex_imports) (ClassDeclaration 99 (Node ex_sourceFile))
          = Inr None"
    using checkNode_preconditions [of "ClassDeclaration 99 (Node ex_sourceFile)"
        "ex_rule ''warning'' ex_imports"]
    by (simp add: ex_rule_def ex_checker_def)
  moreover
  have "checkNode (ex_rule ''warning'' []) ex_class = Inr None"
    using checkNode_preconditions [of ex_class "ex_rule ''warning'' []"]
    by (simp add: ex_fields)
  moreover
  have "checkNode ((ex_rule ''warning'' ex_imports)
          \<lparr>templateTypeChecker := (ex_checker ex_imports)\<lparr>getUsedPipes := \<lambda>i. None\<rparr>\<rparr>) ex_class
        = Inr None"
    using checkNode_preconditions [of ex_class "(ex_rule ''warning'' ex_imports)
          \<lparr>templateTypeChecker := (ex_checker ex_imports)\<lparr>getUsedPipes := \<lambda>i. None\<rparr>\<rparr>"]
    by simp
  ultimately show ?thesis by simp
qed

subsection \<open>C6: shouldCheck\<close>

text \<open>
  C6. \<open>shouldCheck\<close> is true exactly when the configuration is not \<^verbatim>\<open>suppress\<close> and the
  file has a named import of \<^verbatim>\<open>Component\<close> or a namespace import from \<^verbatim>\<open>@angular/core\<close>.
  It is a function of the configuration and of the two answers of the tracker, and of
  nothing else.
\<close>

theorem shouldCheck_iff:
  "shouldCheck r sourceFile \<longleftrightarrow>
     unusedStandaloneImports (typeCheckingConfig r) \<noteq> ''suppress'' \<and>
     (hasNamedImport (importedSymbolsTracker r) sourceFile ''Component'' ''@angular/core'' \<or>
      hasNamespaceImport (importedSymbolsTracker r) sourceFile ''@angular/core'')"
  by (simp add: shouldCheck_def)

theorem shouldCheck_iff_witness:
  "shouldCheck (ex_rule ''warning'' ex_imports) ex_sourceFile \<and>
   \<not> shouldCheck (ex_rule ''suppress'' ex_imports) ex_sourceFile \<and>
   \<not> shouldCheck (ex_rule ''warning'' ex_imports) ex_class"
  using shouldCheck_iff [of "ex_rule ''warning'' ex_imports" ex_sourceFile]
    shouldCheck_iff [of "ex_rule ''suppress'' ex_imports" ex_sourceFile]
    shouldCheck_iff [of "ex_rule ''warning'' ex_imports" ex_class]
  by (simp add: ex_rule_def ex_tracker_def ex_sourceFile_def ex_class_def)

subsection \<open>C7: severity\<close>

text \<open>
  C7. Every diagnostic of \<open>checkNode\<close> is an error when the configuration is \<^verbatim>\<open>error\<close>, and a
  warning for any other value.
\<close>

theorem checkNode_severity:
  assumes "checkNode r node = Inr (Some d)"
  shows "category d =
           (if unusedStandaloneImports (typeCheckingConfig r) = ''error''
            then CategoryError else CategoryWarning)"
proof -
  from checkNode_Some [OF assms] obtain raw imps unused
    where "d = reportUnused r raw imps unused" by blast
  then show ?thesis
    by (simp add: reportUnused_def makeDiagnostic_def diagnosticCategory_def)
qed

theorem checkNode_severity_witness:
  "(\<exists>d. checkNode (ex_rule ''error'' ex_imports) ex_class = Inr (Some d) \<and>
        category d = CategoryError) \<and>
   (\<exists>d. checkNode (ex_rule ''warning'' ex_imports) ex_class = Inr (Some d) \<and>
        category d = CategoryWarning)"
  using checkNode_severity [OF ex_checkNode(1) [of "''error''"]]
    checkNode_severity [OF ex_checkNode(1) [of "''warning''"]]
  by (simp add: ex_checkNode ex_fields)

subsection \<open>C8: how many related entries\<close>

text \<open>
  C8. When \<open>checkNode\<close> returns the diagnostic \<^verbatim>\<open>Imports array contains unused imports\<close>, it
  has at least one related entry and fewer than there are declared imports.
\<close>

theorem checkNode_partial_count:
  assumes "checkNode r node = Inr (Some d)"
    and "messageText d = ''Imports array contains unused imports''"
  shows "\<exists>md imps rel.
           getDirectiveMetadata (templateTypeChecker r) (nid node) = Some md \<and>
           importReferences md = Some imps \<and> relatedInformation d = Some rel \<and>
           1 \<le> length rel \<and> length rel < length imps"
proof -
  from checkNode_Some [OF assms(1)] obtain md raw imps ud up unused
    where md: "getDirectiveMetadata (templateTypeChecker r) (nid node) = Some md"
      and raw: "rawImports md = Some raw" and imps: "importReferences md = Some imps"
      and unused: "getUnusedSymbols (templateTypeChecker r) md (usedDirectiveSet ud) (set up)
                     = Inr (Some unused)"
      and d: "d = reportUnused r raw imps unused"
    by blast
  from getUnusedSymbols_Some [OF unused] raw imps
  have sub: "unused = filter (flagged (templateTypeChecker r) raw (usedDirectiveSet ud) (set up)) imps"
    and ne: "unused \<noteq> []"
    by auto
  from d assms(2) have neq: "length unused \<noteq> length imps"
    by (auto simp: reportUnused_def makeDiagnostic_def split: if_splits)
  from sub have "length unused \<le> length imps" by simp
  with neq have less: "length unused < length imps" by simp
  from ne have "1 \<le> length unused" by (cases unused) simp_all
  with less d neq md imps show ?thesis
    by (simp add: reportUnused_def makeDiagnostic_def)
qed

theorem checkNode_partial_count_witness:
  "\<exists>d rel. checkNode (ex_rule ''warning'' ex_imports) ex_class = Inr (Some d) \<and>
      messageText d = ''Imports array contains unused imports'' \<and>
      relatedInformation d = Some rel \<and> 1 \<le> length rel \<and> length rel < length ex_imports"
proof -
  let ?d = "reportUnused (ex_rule ''warning'' ex_imports) ex_rawImports ex_imports
              [ex_refA, ex_refB, ex_refP]"
  have msg: "messageText ?d = ''Imports array contains unused imports''"
    by (simp add: reportUnused_def makeDiagnostic_def ex_imports_def)
  from checkNode_partial_count [OF ex_checkNode(1) msg]
  obtain rel where "relatedInformation ?d = Some rel" and "1 \<le> length rel"
    and "length rel < length ex_imports"
    by (auto simp: ex_fields)
  with ex_checkNode(1) [of "''warning''"] msg show ?thesis by blast
qed

subsection \<open>C9: one code, one anchor\<close>

text \<open>
  C9. Every diagnostic of \<open>checkNode\<close>, of either message, carries the code
  \<open>UNUSED_STANDALONE_IMPORTS\<close> and is anchored on \<open>getDiagnosticNode\<close> of the raw imports
  expression of the component.
\<close>

theorem checkNode_code_and_anchor:
  assumes "checkNode r node = Inr (Some d)"
  shows "\<exists>md raw.
           getDirectiveMetadata (templateTypeChecker r) (nid node) = Some md \<and>
           rawImports md = Some raw \<and>
           code d = UNUSED_STANDALONE_IMPORTS \<and> anchor d = getDiagnosticNode raw"
proof -
  from checkNode_Some [OF assms] obtain md raw imps unused
    where "getDirectiveMetadata (templateTypeChecker r) (nid node) = Some md"
      and "rawImports md = Some raw" and "d = reportUnused r raw imps unused"
    by blast
  then show ?thesis
    by (simp add: reportUnused_def makeDiagnostic_def)
qed

theorem checkNode_code_and_anchor_witness:
  "(\<exists>d. checkNode (ex_rule ''warning'' ex_imports) ex_class = Inr (Some d) \<and>
        code d = UNUSED_STANDALONE_IMPORTS \<and> anchor d = 6) \<and>
   (\<exists>d. checkNode (ex_rule ''warning'' [ex_refA, ex_refB]) ex_class = Inr (Some d) \<and>
        code d = UNUSED_STANDALONE_IMPORTS \<and> anchor d = 6)"
proof -
  have anchor: "getDiagnosticNode ex_rawImports = 6"
    by (simp add: getDiagnosticNode_def ex_tree_defs)
  from checkNode_code_and_anchor [OF ex_checkNode(1) [of "''warning''"]]
    checkNode_code_and_anchor [OF ex_checkNode(2) [of "''warning''"]]
  show ?thesis
    by (simp add: ex_checkNode ex_fields anchor)
qed

subsection \<open>C10: the innermost variable statement decides\<close>

text \<open>
  C10. For a reference that is not spelled in the raw imports expression and has an
  identity in the file, the first variable statement met on the way up decides alone:
  whatever encloses it, outer variable statements and their modifiers included, the
  answer is whether that statement carries the export modifier.
\<close>

theorem isPotentialSharedReference_innermost:
  assumes "getIdentityInExpression reference raw = None"
    and "getIdentityIn reference (getSourceFile (Node raw)) = Some identity"
    and "enclosing (Node identity) = inner @ v # outer"
    and "\<forall>n\<in>set inner. \<not> isVariableStatement n"
    and "isVariableStatement v"
  shows "isPotentialSharedReference reference raw = Inr (hasExportModifier v)"
proof -
  from assms(4,5) have "List.find isVariableStatement (inner @ v # outer) = Some v"
    by (induction inner) simp_all
  with assms(1,2,3) show ?thesis
    by (simp add: isPotentialSharedReference_cases)
qed

theorem isPotentialSharedReference_innermost_witness:
  "isPotentialSharedReference ex_refN ex_rawImports = Inr False \<and>
   hasExportModifier (VariableStatement 50 (Some [ExportKeyword]) (Node ex_sourceFile))"
proof -
  let ?outer = "VariableStatement 50 (Some [ExportKeyword]) (Node ex_sourceFile)"
  let ?block = "OtherNode 55 Block (Node ?outer)"
  let ?v = "VariableStatement 60 None (Node ?block)"
  let ?array = "OtherNode 63 ArrayLiteralExpression (Node ?v)"
  let ?identity = "OtherNode 64 Identifier (Node ?array)"
  have "isPotentialSharedReference ex_refN ex_rawImports = Inr (hasExportModifier ?v)"
    using isPotentialSharedReference_innermost [of ex_refN ex_rawImports ?identity
        "[?identity, ?array]" ?v "[?block, ?outer, ex_sourceFile]"]
    by (simp add: ex_refN_def ex_nested_def ex_reference_def ex_tree_defs)
  then show ?thesis by simp
qed

end
